theory Spec2Isabelle
  imports Complex_Main "HOL-Library.Multiset"
begin

section \<open>QuizMania backend: the in-memory quiz catalog, scoring and collaboration\<close>

text \<open>
  The theory embeds the endpoints of \<^verbatim>\<open>backend/app.py\<close> that work on the four module-level
  lists \<^verbatim>\<open>quizzes\<close>, \<^verbatim>\<open>quiz_history\<close>, \<^verbatim>\<open>quiz_collaborators\<close> and
  \<^verbatim>\<open>collaboration_invitations\<close>, and the leaderboard query on the two database tables it
  reads. Each endpoint is a function from the lists (and the request) to either an error or
  a response together with the lists after the call.

  Conventions of the embedding:
  \<^item> A Python dictionary with a fixed set of keys is a record. A key that every writer of
    the dictionary sets is a field; the key \<^verbatim>\<open>"creator"\<close> of a quiz, which the collaboration
    endpoints read with \<^verbatim>\<open>quiz["creator"]\<close> but which neither \<^verbatim>\<open>create_quiz\<close> nor
    \<^verbatim>\<open>import_quiz\<close> sets, is an optional field, and reading it where it is absent is the
    \<^verbatim>\<open>KeyError\<close> Python raises. Keys that no embedded function reads (\<^verbatim>\<open>attempts\<close>,
    \<^verbatim>\<open>average_score\<close> of a quiz) are left out.
  \<^item> Every \<^verbatim>\<open>raise\<close> of the source, and every exception the interpreter raises by itself
    (\<^verbatim>\<open>KeyError\<close>, \<^verbatim>\<open>IndexError\<close>, \<^verbatim>\<open>ZeroDivisionError\<close>), is an \<open>Inl\<close> result. In each
    endpoint every such exit comes before the first write to a module-level list, so an
    error result carries no lists: they are the ones the call started with.
  \<^item> The keys of a request body that an endpoint reads with \<^verbatim>\<open>.get\<close> are taken to be
    present with a value of the expected type, except \<^verbatim>\<open>"role"\<close> of an invitation and
    \<^verbatim>\<open>"action"\<close> of a response, which may be missing.
  \<^item> Each call of \<^verbatim>\<open>datetime.now().isoformat()\<close> is an extra string argument.
  \<^item> A Python float is the real number it denotes. The two float operations of
    \<^verbatim>\<open>(correct_answers / total_questions) * 100\<close> each round their exact result to the
    nearest double (IEEE 754 binary64, ties to even), and the rounding is written out.
\<close>

subsection \<open>Errors\<close>

datatype error =
    HTTPException nat string
  | KeyError string
  | IndexError
  | ZeroDivisionError

fun is_HTTPException :: "error \<Rightarrow> bool" where
  "is_HTTPException (HTTPException code detail) = True"
| "is_HTTPException (KeyError k) = False"
| "is_HTTPException IndexError = False"
| "is_HTTPException ZeroDivisionError = False"

subsection \<open>Data of the quiz catalog and of a submission\<close>

record question_dict =
  question :: string
  options :: "string list"
  correct :: string

record quiz =
  q_id :: int
  q_title :: string
  q_description :: string
  q_category :: string
  q_difficulty :: string
  q_time_limit :: int
  q_questions :: "question_dict list"
  q_created_by :: string
  q_created_date :: string
  q_creator :: "string option"

text \<open>The request models \<^verbatim>\<open>Answer\<close> and \<^verbatim>\<open>QuizSubmission\<close>.\<close>

record answer_model =
  question_id :: int
  answer :: string

record quiz_submission =
  sub_quiz_id :: int
  sub_username :: string
  answers :: "answer_model list"
  time_taken :: int

record detailed_result =
  dr_question :: string
  your_answer :: answer_model
  correct_answer :: string
  is_correct :: bool
  dr_options :: "string list"

record history_entry =
  h_username :: string
  h_quiz_title :: string
  h_score :: real
  h_date :: string
  h_detailed_results :: "detailed_result list"

record leaderboard_entry =
  l_username :: string
  l_quiz_title :: string
  l_score :: real
  l_date :: string

record submit_response =
  r_score :: real
  r_correct :: nat
  r_total :: nat
  r_detailed_results :: "detailed_result list"

subsection \<open>Data of the collaboration endpoints\<close>

record collaborator =
  c_quiz_id :: int
  c_username :: string
  c_role :: string
  c_status :: string
  c_invited_by :: string
  c_invited_at :: string
  c_joined_at :: string

record invitation =
  i_id :: int
  i_quiz_id :: int
  i_inviter :: string
  i_invitee :: string
  i_role :: string
  i_status :: string
  i_created_at :: string
  i_quiz_title :: string
  i_responded_at :: "string option"

subsection \<open>The module-level lists\<close>

record state =
  quizzes :: "quiz list"
  quiz_history :: "history_entry list"
  quiz_collaborators :: "collaborator list"
  collaboration_invitations :: "invitation list"

subsection \<open>Python floats\<close>

text \<open>
  The doubles are the reals \<open>m * 2 ^ e\<close> with an integer \<open>m\<close> of at most 53 bits and
  \<open>e \<ge> -1074\<close>. Python's true division of two integers and its product of two floats
  return the double nearest to the exact result, the one with the even \<open>m\<close> when two are
  equally near. \<open>round_double\<close> is that rounding for a real below the largest double (the
  scores are at most 100, so overflow to infinity does not arise): \<open>floor_log2\<close> gives the
  binary exponent of a positive real from the bit length of an integer next to it, the
  spacing of the doubles around \<open>x\<close> is \<open>2 ^ (e - 52)\<close>, with \<open>e\<close> not below \<open>-1022\<close> where the
  subnormal doubles begin, and \<open>x\<close> is rounded to a multiple of that spacing.
\<close>

fun bit_length :: "nat \<Rightarrow> nat" where
  "bit_length n = (if n = 0 then 0 else Suc (bit_length (n div 2)))"

declare bit_length.simps [simp del]

definition floor_log2 :: "real \<Rightarrow> int" where
  "floor_log2 x =
     (if 1 \<le> x then int (bit_length (nat \<lfloor>x\<rfloor>)) - 1
      else - int (bit_length (nat \<lceil>1 / x\<rceil> - 1)))"

definition round_half_even :: "real \<Rightarrow> int" where
  "round_half_even x =
     (let f = \<lfloor>x\<rfloor>; r = x - of_int f
      in if r < 1 / 2 then f else if 1 / 2 < r then f + 1 else if even f then f else f + 1)"

definition round_double :: "real \<Rightarrow> real" where
  "round_double x =
     (if x = 0 then 0
      else (let e = max (floor_log2 \<bar>x\<bar>) (- 1022);
                ulp = 2 powi (e - 52)
            in of_int (round_half_even (x / ulp)) * ulp))"

subsection \<open>Scoring: \<^verbatim>\<open>submit_quiz\<close>\<close>

text \<open>
  The loop \<^verbatim>\<open>for i, answer in enumerate(submission.answers)\<close>. The arguments are the quiz's
  questions, the index \<open>i\<close>, the answers still to visit, and the two accumulators
  \<^verbatim>\<open>correct_answers\<close> and \<^verbatim>\<open>detailed_results\<close>. \<^verbatim>\<open>quiz["questions"][i]\<close> raises
  \<^verbatim>\<open>IndexError\<close> when \<open>i\<close> is not below the number of questions.
  \<open>detailed_result_of\<close> is the dictionary appended at each round.
\<close>

definition detailed_result_of :: "answer_model \<Rightarrow> question_dict \<Rightarrow> bool \<Rightarrow> detailed_result" where
  "detailed_result_of a q is_corr =
     \<lparr>dr_question = question q, your_answer = a, correct_answer = correct q,
      is_correct = is_corr, dr_options = options q\<rparr>"

fun grade_loop ::
  "question_dict list \<Rightarrow> nat \<Rightarrow> answer_model list \<Rightarrow> nat \<Rightarrow> detailed_result list
     \<Rightarrow> error + (nat \<times> detailed_result list)" where
  "grade_loop qs i [] correct_answers detailed_results =
     Inr (correct_answers, detailed_results)"
| "grade_loop qs i (a # rest) correct_answers detailed_results =
     (if i < length qs then
        (let q = qs ! i;
             is_corr = (answer a = correct q)
         in grade_loop qs (Suc i) rest
              (if is_corr then correct_answers + 1 else correct_answers)
              (detailed_results @ [detailed_result_of a q is_corr]))
      else Inl IndexError)"

text \<open>
  \<^verbatim>\<open>submit_quiz\<close>. The lists \<^verbatim>\<open>leaderboard\<close> and \<^verbatim>\<open>quiz_history\<close> that receive the new
  entries are assigned inside the function body (\<^verbatim>\<open>leaderboard = []\<close>,
  \<^verbatim>\<open>quiz_history = []\<close>) with no \<^verbatim>\<open>global\<close> declaration, so they are local variables: they
  are bound here and dropped at the return, and the module-level lists are returned as they
  came in. The score is the float \<^verbatim>\<open>(correct_answers / total_questions) * 100\<close>: the
  quotient is rounded, and so is its product with 100.
\<close>

definition submit_quiz ::
  "state \<Rightarrow> quiz_submission \<Rightarrow> string \<Rightarrow> string \<Rightarrow> error + (submit_response \<times> state)" where
  "submit_quiz st submission now1 now2 =
     (case find (\<lambda>q. q_id q = sub_quiz_id submission) (quizzes st) of
        None \<Rightarrow> Inl (HTTPException 404 ''Quiz not found'')
      | Some qz \<Rightarrow>
          (let total_questions = length (q_questions qz) in
           case grade_loop (q_questions qz) 0 (answers submission) 0 [] of
             Inl e \<Rightarrow> Inl e
           | Inr (correct_answers, detailed_results) \<Rightarrow>
               if total_questions = 0 then Inl ZeroDivisionError
               else
                 (let score =
                        round_double
                          (round_double (real correct_answers / real total_questions) * 100);
                      local_leaderboard =
                        [] @ [\<lparr>l_username = sub_username submission, l_quiz_title = q_title qz,
                                l_score = score, l_date = now1\<rparr>];
                      local_quiz_history =
                        [] @ [\<lparr>h_username = sub_username submission, h_quiz_title = q_title qz,
                                h_score = score, h_date = now2,
                                h_detailed_results = detailed_results\<rparr>]
                  in Inr (\<lparr>r_score = score, r_correct = correct_answers,
                           r_total = total_questions,
                           r_detailed_results = detailed_results\<rparr>, st))))"

text \<open>\<^verbatim>\<open>get_quiz_history\<close>: the reader of the module-level attempt history.\<close>

definition get_quiz_history :: "state \<Rightarrow> string \<Rightarrow> history_entry list" where
  "get_quiz_history st username = filter (\<lambda>entry. h_username entry = username) (quiz_history st)"

subsection \<open>The catalog's writer: \<^verbatim>\<open>create_quiz\<close>\<close>

text \<open>
  The request body of \<^verbatim>\<open>create_quiz\<close> is an arbitrary JSON object, so each key the function
  looks at may be missing.
\<close>

record question_data =
  qd_question :: "string option"
  qd_options :: "string list option"
  qd_correct :: "string option"

record quiz_data =
  d_title :: "string option"
  d_description :: "string option"
  d_category :: "string option"
  d_difficulty :: "string option"
  d_time_limit :: "int option"
  d_questions :: "question_data list option"
  d_created_by :: "string option"

text \<open>Python's \<^verbatim>\<open>str\<close> of a non-negative integer, for the f-strings of the error details.\<close>

fun string_of_nat :: "nat \<Rightarrow> string" where
  "string_of_nat n =
     (if n < 10 then [char_of (48 + n)]
      else string_of_nat (n div 10) @ [char_of (48 + n mod 10)])"

text \<open>
  The loop \<^verbatim>\<open>for i, question in enumerate(quiz_data["questions"])\<close>. It raises at the first
  question that fails one of its three checks; a list that passes is stored as it is, which
  here is the list of its questions with every key present.
\<close>

fun check_questions :: "nat \<Rightarrow> question_data list \<Rightarrow> error + question_dict list" where
  "check_questions i [] = Inr []"
| "check_questions i (q # rest) =
     (case (qd_question q, qd_options q, qd_correct q) of
        (Some text, Some opts, Some corr) \<Rightarrow>
          if length opts < 2 then
            Inl (HTTPException 400
                  (''Question '' @ string_of_nat (i + 1) @ '' must have at least 2 options''))
          else if corr \<notin> set [''A'', ''B'', ''C'', ''D''] then
            Inl (HTTPException 400
                  (''Question '' @ string_of_nat (i + 1) @
                   '' correct answer must be A, B, C, or D''))
          else
            (case check_questions (Suc i) rest of
               Inl e \<Rightarrow> Inl e
             | Inr stored \<Rightarrow>
                 Inr (\<lparr>question = text, options = opts, correct = corr\<rparr> # stored))
      | _ \<Rightarrow>
          Inl (HTTPException 400
                (''Question '' @ string_of_nat (i + 1) @ '' is missing required fields'')))"

text \<open>
  \<^verbatim>\<open>create_quiz\<close>. The nested cases are the loop over \<^verbatim>\<open>required_fields\<close>, which raises
  at the first of the six names that is not a key of the request. The new dictionary has
  the key \<^verbatim>\<open>"created_by"\<close> and no key \<^verbatim>\<open>"creator"\<close>.
\<close>

definition create_quiz :: "state \<Rightarrow> quiz_data \<Rightarrow> string \<Rightarrow> error + ((string \<times> int) \<times> state)" where
  "create_quiz st d now =
     (let new_id = (if quizzes st = [] then 1 else Max (set (map q_id (quizzes st))) + 1) in
      (case d_title d of
        None \<Rightarrow> Inl (HTTPException 400 ''Missing required field: title'')
      | Some title \<Rightarrow>
      (case d_description d of
        None \<Rightarrow> Inl (HTTPException 400 ''Missing required field: description'')
      | Some description \<Rightarrow>
      (case d_category d of
        None \<Rightarrow> Inl (HTTPException 400 ''Missing required field: category'')
      | Some category \<Rightarrow>
      (case d_difficulty d of
        None \<Rightarrow> Inl (HTTPException 400 ''Missing required field: difficulty'')
      | Some difficulty \<Rightarrow>
      (case d_time_limit d of
        None \<Rightarrow> Inl (HTTPException 400 ''Missing required field: time_limit'')
      | Some time_limit \<Rightarrow>
      (case d_questions d of
        None \<Rightarrow> Inl (HTTPException 400 ''Missing required field: questions'')
      | Some qs \<Rightarrow>
          if length qs < 1 then
            Inl (HTTPException 400 ''Quiz must have at least 1 question'')
          else
            (case check_questions 0 qs of
               Inl e \<Rightarrow> Inl e
             | Inr stored \<Rightarrow>
                 (let new_quiz =
                    \<lparr>q_id = new_id, q_title = title, q_description = description,
                     q_category = category, q_difficulty = difficulty,
                     q_time_limit = time_limit, q_questions = stored,
                     q_created_by =
                       (case d_created_by d of None \<Rightarrow> ''Anonymous'' | Some u \<Rightarrow> u),
                     q_created_date = now, q_creator = None\<rparr>
                  in Inr ((''Quiz created successfully'', new_id),
                          st\<lparr>quizzes := quizzes st @ [new_quiz]\<rparr>))))))))))"

subsection \<open>Collaboration: invite, respond, list, remove\<close>

record invite_request =
  req_quiz_id :: int
  req_inviter :: string
  req_invitee :: string
  req_role :: "string option"

text \<open>
  \<^verbatim>\<open>invite_collaborator\<close>. \<^verbatim>\<open>invitation.get("role", "editor")\<close> is the default for a
  missing role; the role is not compared with any list of roles.
\<close>

definition invite_collaborator ::
  "state \<Rightarrow> invite_request \<Rightarrow> string \<Rightarrow> error + ((string \<times> int) \<times> state)" where
  "invite_collaborator st req now =
     (let quiz_id = req_quiz_id req;
          inviter = req_inviter req;
          invitee = req_invitee req;
          role = (case req_role req of None \<Rightarrow> ''editor'' | Some r \<Rightarrow> r)
      in
      case find (\<lambda>q. q_id q = quiz_id) (quizzes st) of
        None \<Rightarrow> Inl (HTTPException 404 ''Quiz not found'')
      | Some qz \<Rightarrow>
         (case q_creator qz of
            None \<Rightarrow> Inl (KeyError ''creator'')
          | Some creator \<Rightarrow>
              if creator \<noteq> inviter \<and>
                 find (\<lambda>c. c_quiz_id c = quiz_id \<and> c_username c = inviter \<and>
                            c_role c \<in> set [''admin'', ''owner''])
                      (quiz_collaborators st) = None
              then Inl (HTTPException 403 ''Insufficient permissions'')
              else if find (\<lambda>i. i_quiz_id i = quiz_id \<and> i_invitee i = invitee \<and>
                                 i_status i = ''pending'')
                           (collaboration_invitations st) \<noteq> None
              then Inl (HTTPException 400 ''User already invited'')
              else if find (\<lambda>c. c_quiz_id c = quiz_id \<and> c_username c = invitee)
                           (quiz_collaborators st) \<noteq> None
              then Inl (HTTPException 400 ''User already collaborating'')
              else
                (let invitation_id = int (length (collaboration_invitations st)) + 1;
                     new_invitation =
                       \<lparr>i_id = invitation_id, i_quiz_id = quiz_id, i_inviter = inviter,
                        i_invitee = invitee, i_role = role, i_status = ''pending'',
                        i_created_at = now, i_quiz_title = q_title qz,
                        i_responded_at = None\<rparr>
                 in Inr ((''Invitation sent successfully'', invitation_id),
                         st\<lparr>collaboration_invitations :=
                              collaboration_invitations st @ [new_invitation]\<rparr>))))"

text \<open>\<^verbatim>\<open>get_user_invitations\<close>.\<close>

definition get_user_invitations :: "state \<Rightarrow> string \<Rightarrow> invitation list" where
  "get_user_invitations st username =
     filter (\<lambda>i. i_invitee i = username \<and> i_status i = ''pending'')
       (collaboration_invitations st)"

text \<open>
  \<^verbatim>\<open>respond_to_invitation\<close> assigns to two keys of the dictionary that \<^verbatim>\<open>next\<close> returned,
  which is the first element of the list with the requested id; \<open>update_first\<close> is that
  in-place update. \<^verbatim>\<open>response.get("action")\<close> is \<^verbatim>\<open>None\<close> when the key is missing.
\<close>

fun update_first :: "('a \<Rightarrow> bool) \<Rightarrow> ('a \<Rightarrow> 'a) \<Rightarrow> 'a list \<Rightarrow> 'a list" where
  "update_first P f [] = []"
| "update_first P f (x # xs) = (if P x then f x # xs else x # update_first P f xs)"

record respond_request =
  resp_invitation_id :: int
  resp_action :: "string option"
  resp_username :: string

definition respond_to_invitation ::
  "state \<Rightarrow> respond_request \<Rightarrow> string \<Rightarrow> string
     \<Rightarrow> error + ((string \<times> collaborator option) \<times> state)" where
  "respond_to_invitation st response now1 now2 =
     (let invitation_id = resp_invitation_id response;
          action = resp_action response;
          username = resp_username response
      in
      case find (\<lambda>i. i_id i = invitation_id) (collaboration_invitations st) of
        None \<Rightarrow> Inl (HTTPException 404 ''Invitation not found'')
      | Some invt \<Rightarrow>
          if i_invitee invt \<noteq> username then
            Inl (HTTPException 403 ''Not authorized to respond to this invitation'')
          else if i_status invt \<noteq> ''pending'' then
            Inl (HTTPException 400 ''Invitation already responded to'')
          else
            (let invitations' =
                   update_first (\<lambda>i. i_id i = invitation_id)
                     (\<lambda>i. i\<lparr>i_status :=
                               (if action = Some ''accept'' then ''accepted'' else ''declined''),
                             i_responded_at := Some now1\<rparr>)
                     (collaboration_invitations st)
             in
             if action = Some ''accept'' then
               (let new_collaborator =
                      \<lparr>c_quiz_id = i_quiz_id invt, c_username = username, c_role = i_role invt,
                       c_status = ''active'', c_invited_by = i_inviter invt,
                       c_invited_at = i_created_at invt, c_joined_at = now2\<rparr>
                in Inr ((''Invitation accepted'', Some new_collaborator),
                        st\<lparr>collaboration_invitations := invitations',
                           quiz_collaborators := quiz_collaborators st @ [new_collaborator]\<rparr>))
             else
               Inr ((''Invitation declined'', None),
                    st\<lparr>collaboration_invitations := invitations'\<rparr>)))"

text \<open>
  \<^verbatim>\<open>get_quiz_collaborators\<close>. The owner's entry is built from \<^verbatim>\<open>quiz["creator"]\<close> at every
  call and has no \<^verbatim>\<open>invited_by\<close> and \<^verbatim>\<open>invited_at\<close>; no quiz has the key
  \<^verbatim>\<open>"created_at"\<close>, so \<^verbatim>\<open>quiz.get("created_at", ...)\<close> is the current time.
\<close>

record collaborator_entry =
  e_quiz_id :: int
  e_username :: string
  e_role :: string
  e_status :: string
  e_invited_by :: "string option"
  e_invited_at :: "string option"
  e_joined_at :: string

definition entry_of_collaborator :: "collaborator \<Rightarrow> collaborator_entry" where
  "entry_of_collaborator c =
     \<lparr>e_quiz_id = c_quiz_id c, e_username = c_username c, e_role = c_role c,
      e_status = c_status c, e_invited_by = Some (c_invited_by c),
      e_invited_at = Some (c_invited_at c), e_joined_at = c_joined_at c\<rparr>"

definition get_quiz_collaborators :: "state \<Rightarrow> int \<Rightarrow> string \<Rightarrow> error + collaborator_entry list" where
  "get_quiz_collaborators st quiz_id now =
     (case find (\<lambda>q. q_id q = quiz_id) (quizzes st) of
        None \<Rightarrow> Inl (HTTPException 404 ''Quiz not found'')
      | Some qz \<Rightarrow>
          (let collaborators =
                 filter (\<lambda>c. c_quiz_id c = quiz_id \<and> c_status c = ''active'')
                   (quiz_collaborators st)
           in case q_creator qz of
                None \<Rightarrow> Inl (KeyError ''creator'')
              | Some creator \<Rightarrow>
                  Inr (\<lparr>e_quiz_id = quiz_id, e_username = creator, e_role = ''owner'',
                        e_status = ''active'', e_invited_by = None, e_invited_at = None,
                        e_joined_at = now\<rparr> # map entry_of_collaborator collaborators)))"

text \<open>
  \<^verbatim>\<open>remove_collaborator\<close>. The permission test accepts the creator and a collaborator whose
  role is \<^verbatim>\<open>"admin"\<close>. \<^verbatim>\<open>quiz_collaborators.remove(collaborator)\<close> deletes the first element
  equal to the one found, which is \<open>remove1\<close>.
\<close>

definition remove_collaborator ::
  "state \<Rightarrow> int \<Rightarrow> string \<Rightarrow> string \<Rightarrow> error + (string \<times> state)" where
  "remove_collaborator st quiz_id username remover_username =
     (case find (\<lambda>q. q_id q = quiz_id) (quizzes st) of
        None \<Rightarrow> Inl (HTTPException 404 ''Quiz not found'')
      | Some qz \<Rightarrow>
         (case q_creator qz of
            None \<Rightarrow> Inl (KeyError ''creator'')
          | Some creator \<Rightarrow>
              if creator \<noteq> remover_username \<and>
                 find (\<lambda>c. c_quiz_id c = quiz_id \<and> c_username c = remover_username \<and>
                            c_role c = ''admin'')
                      (quiz_collaborators st) = None
              then Inl (HTTPException 403 ''Insufficient permissions'')
              else if username = creator then
                Inl (HTTPException 400 ''Cannot remove quiz owner'')
              else
                (case find (\<lambda>c. c_quiz_id c = quiz_id \<and> c_username c = username)
                           (quiz_collaborators st) of
                   None \<Rightarrow> Inl (HTTPException 404 ''Collaborator not found'')
                 | Some collab \<Rightarrow>
                     Inr (''Collaborator removed successfully'',
                          st\<lparr>quiz_collaborators := remove1 collab (quiz_collaborators st)\<rparr>))))"

text \<open>
  A sequence of collaboration calls. A call that raises leaves the lists as they are.
\<close>

datatype operation =
    Invite invite_request string
  | Respond respond_request string string
  | Remove int string string

fun step :: "state \<Rightarrow> operation \<Rightarrow> state" where
  "step st (Invite req now) =
     (case invite_collaborator st req now of Inl e \<Rightarrow> st | Inr (r, st') \<Rightarrow> st')"
| "step st (Respond response now1 now2) =
     (case respond_to_invitation st response now1 now2 of Inl e \<Rightarrow> st | Inr (r, st') \<Rightarrow> st')"
| "step st (Remove quiz_id username remover_username) =
     (case remove_collaborator st quiz_id username remover_username of
        Inl e \<Rightarrow> st | Inr (r, st') \<Rightarrow> st')"


text \<open>The lists at start-up, with a catalog \<open>qs\<close>.\<close>

definition initial_state :: "quiz list \<Rightarrow> state" where
  "initial_state qs =
     \<lparr>quizzes = qs, quiz_history = [], quiz_collaborators = [],
      collaboration_invitations = []\<rparr>"

subsection \<open>The leaderboard query\<close>

text \<open>
  \<^verbatim>\<open>get_leaderboard\<close> reads the tables \<^verbatim>\<open>users\<close> and \<^verbatim>\<open>quiz_results\<close>, not the module-level
  lists. The tables are lists of rows with the columns the query and its writer use.
\<close>

record user_row =
  u_id :: int
  u_username :: string

record quiz_result_row =
  qr_id :: int
  qr_user_id :: int
  qr_quiz_id :: int
  qr_score :: int
  qr_total_questions :: int
  qr_time_taken :: int

record database =
  users :: "user_row list"
  quiz_results :: "quiz_result_row list"

record leaderboard_row =
  lb_username :: string
  lb_total_score :: int
  lb_quizzes_taken :: nat
  lb_average_score :: rat

text \<open>
  \<^verbatim>\<open>db.query(...).join(User, QuizResult.user_id == User.id)\<close> is an inner join: a result
  row appears once for each user row whose id is its \<^verbatim>\<open>user_id\<close>, and not at all when there
  is none.
\<close>

definition joined_rows :: "database \<Rightarrow> (string \<times> int) list" where
  "joined_rows db =
     concat (map (\<lambda>r. map (\<lambda>u. (u_username u, qr_score r))
                         (filter (\<lambda>u. qr_user_id r = u_id u) (users db)))
                 (quiz_results db))"

text \<open>
  \<^verbatim>\<open>group_by(User.username)\<close> with the aggregates \<^verbatim>\<open>sum\<close>, \<^verbatim>\<open>count\<close> and \<^verbatim>\<open>avg\<close>, ordered by
  the sum, largest first. The order of groups with equal sums is left to the database; here
  it is the order of first appearance. The average is kept exact: the source rounds the
  float to one decimal.
\<close>

definition leaderboard_query :: "database \<Rightarrow> leaderboard_row list" where
  "leaderboard_query db =
     (let rows = joined_rows db;
          groups = remdups (map fst rows)
      in sort_key (\<lambda>e. - lb_total_score e)
           (map (\<lambda>name.
                   (let scores = map snd (filter (\<lambda>p. fst p = name) rows)
                    in \<lparr>lb_username = name, lb_total_score = sum_list scores,
                        lb_quizzes_taken = length scores,
                        lb_average_score = of_int (sum_list scores) / of_nat (length scores)\<rparr>))
                groups))"

definition sample_leaderboard :: "leaderboard_row list" where
  "sample_leaderboard =
     [\<lparr>lb_username = ''admin'', lb_total_score = 100, lb_quizzes_taken = 5, lb_average_score = 85\<rparr>,
      \<lparr>lb_username = ''user1'', lb_total_score = 80, lb_quizzes_taken = 4, lb_average_score = 80\<rparr>,
      \<lparr>lb_username = ''user2'', lb_total_score = 60, lb_quizzes_taken = 3, lb_average_score = 75\<rparr>]"

definition get_leaderboard :: "database \<Rightarrow> leaderboard_row list" where
  "get_leaderboard db =
     (let leaderboard = leaderboard_query db
      in if leaderboard = [] then sample_leaderboard else leaderboard)"

text \<open>
  \<^verbatim>\<open>submit_quiz_result\<close> (\<^verbatim>\<open>POST /quiz-history\<close>), the writer of \<^verbatim>\<open>quiz_results\<close>: the row's
  \<^verbatim>\<open>user_id\<close> and \<^verbatim>\<open>quiz_id\<close> are the constant 1, whatever the table of users holds. The new
  primary key is the next one after the largest in the table.
\<close>

definition submit_quiz_result :: "database \<Rightarrow> int \<Rightarrow> int \<Rightarrow> int \<Rightarrow> (string \<times> int) \<times> database" where
  "submit_quiz_result db score total_questions time_taken' =
     (let new_id = (if quiz_results db = [] then 1
                    else Max (set (map qr_id (quiz_results db))) + 1);
          quiz_result =
            \<lparr>qr_id = new_id, qr_user_id = 1, qr_quiz_id = 1, qr_score = score,
             qr_total_questions = total_questions, qr_time_taken = time_taken'\<rparr>
      in ((''Quiz result submitted successfully'', new_id),
          db\<lparr>quiz_results := quiz_results db @ [quiz_result]\<rparr>))"

subsection \<open>Keys of the collaboration lists\<close>




subsection \<open>Concrete requests and catalogs\<close>

text \<open>
  The quiz and the submission of \<^verbatim>\<open>test_submit_quiz\<close> in \<^verbatim>\<open>tests/test_quizzes.py\<close>, and the
  dictionary \<^verbatim>\<open>create_quiz\<close> stores for it at time \<^verbatim>\<open>t0\<close>.
\<close>

definition math_quiz_data :: quiz_data where
  "math_quiz_data =
     \<lparr>d_title = Some ''Math Quiz'', d_description = Some ''Simple Math'',
      d_category = Some ''Math'', d_difficulty = Some ''Easy'', d_time_limit = Some 60,
      d_questions = Some
        [\<lparr>qd_question = Some ''1+1?'', qd_options = Some [''1'', ''2'', ''3'', ''4''],
          qd_correct = Some ''B''\<rparr>,
         \<lparr>qd_question = Some ''2+2?'', qd_options = Some [''3'', ''4'', ''5'', ''6''],
          qd_correct = Some ''B''\<rparr>],
      d_created_by = None\<rparr>"

definition math_quiz :: quiz where
  "math_quiz =
     \<lparr>q_id = 1, q_title = ''Math Quiz'', q_description = ''Simple Math'',
      q_category = ''Math'', q_difficulty = ''Easy'', q_time_limit = 60,
      q_questions =
        [\<lparr>question = ''1+1?'', options = [''1'', ''2'', ''3'', ''4''], correct = ''B''\<rparr>,
         \<lparr>question = ''2+2?'', options = [''3'', ''4'', ''5'', ''6''], correct = ''B''\<rparr>],
      q_created_by = ''Anonymous'', q_created_date = ''t0'', q_creator = None\<rparr>"

definition math_submission :: quiz_submission where
  "math_submission =
     \<lparr>sub_quiz_id = 1, sub_username = ''testuser'',
      answers = [\<lparr>question_id = 0, answer = ''B''\<rparr>, \<lparr>question_id = 0, answer = ''A''\<rparr>],
      time_taken = 30\<rparr>"

text \<open>The same quiz created with \<^verbatim>\<open>"created_by": "alice"\<close> in the request.\<close>

definition alice_quiz_data :: quiz_data where
  "alice_quiz_data = math_quiz_data\<lparr>d_created_by := Some ''alice''\<rparr>"

definition alice_quiz :: quiz where
  "alice_quiz = math_quiz\<lparr>q_created_by := ''alice''\<rparr>"

text \<open>
  A catalog entry of the shape the collaboration endpoints read: the same quiz with the
  key \<^verbatim>\<open>"creator"\<close> set. No endpoint of the source writes such an entry.
\<close>

definition shared_quiz :: quiz where
  "shared_quiz = alice_quiz\<lparr>q_creator := Some ''alice''\<rparr>"

text \<open>
  The lists after alice has invited bob to that quiz at time \<^verbatim>\<open>t1\<close>, and the requests of
  the two calls that store a collaborator row for bob.
\<close>

definition bob_invitation :: invitation where
  "bob_invitation =
     \<lparr>i_id = 1, i_quiz_id = 1, i_inviter = ''alice'', i_invitee = ''bob'',
      i_role = ''editor'', i_status = ''pending'', i_created_at = ''t1'',
      i_quiz_title = ''Math Quiz'', i_responded_at = None\<rparr>"


definition invited_state :: state where
  "invited_state = (initial_state [shared_quiz])\<lparr>collaboration_invitations := [bob_invitation]\<rparr>"





text \<open>
  A quiz of twenty questions, all with the correct label B, and a submission that answers
  the first eleven with B and the other nine with A.
\<close>

definition twenty_question_quiz :: quiz where
  "twenty_question_quiz =
     math_quiz\<lparr>q_questions :=
       replicate 20 \<lparr>question = ''1+1?'', options = [''1'', ''2'', ''3'', ''4''],
                     correct = ''B''\<rparr>\<rparr>"

definition eleven_right_submission :: quiz_submission where
  "eleven_right_submission =
     math_submission\<lparr>answers :=
       replicate 11 \<lparr>question_id = 0, answer = ''B''\<rparr> @
       replicate 9 \<lparr>question_id = 0, answer = ''A''\<rparr>\<rparr>"

text \<open>A quiz with no question; \<^verbatim>\<open>create_quiz\<close> rejects the request for it.\<close>

definition empty_quiz :: quiz where
  "empty_quiz = math_quiz\<lparr>q_questions := []\<rparr>"

section \<open>Rounding to the nearest double\<close>

text \<open>
  Evaluation of \<open>bit_length\<close> on numerals, the bounds that make \<open>floor_log2\<close> the binary
  exponent, and the distance between a real and its double.
\<close>

lemma bit_length_0 [simp]: "bit_length 0 = 0"
  by (simp add: bit_length.simps)

lemma bit_length_Suc_0 [simp]: "bit_length (Suc 0) = 1"
  by (simp add: bit_length.simps)

lemma bit_length_numeral [simp]:
  "bit_length (numeral k) = Suc (bit_length (numeral k div 2))"
  by (subst bit_length.simps) simp


lemma bit_length_pos: "0 < n \<Longrightarrow> bit_length n = Suc (bit_length (n div 2))"
  by (subst bit_length.simps) simp

lemma bit_length_bounds:
  "0 < n \<Longrightarrow> 2 ^ (bit_length n - 1) \<le> n \<and> n < 2 ^ bit_length n"
proof (induction n rule: bit_length.induct)
  case (1 n)
  show ?case
  proof (cases "n div 2 = 0")
    case True
    with "1.prems" have "n = 1" by (simp add: div_eq_0_iff) 
    then show ?thesis by simp
  next
    case False
    then have m: "0 < n div 2" by simp
    from "1.IH" [OF _ m] "1.prems"
    have lo: "2 ^ (bit_length (n div 2) - 1) \<le> n div 2"
      and hi: "n div 2 < 2 ^ bit_length (n div 2)" by simp_all
    have pos: "0 < bit_length (n div 2)"
      using m by (simp add: bit_length_pos)
    then obtain l where l: "bit_length (n div 2) = Suc l" by (cases "bit_length (n div 2)") auto
    have bl: "bit_length n = Suc (Suc l)"
      using "1.prems" l by (simp add: bit_length_pos)
    from lo l have "2 * 2 ^ l \<le> 2 * (n div 2)" by simp
    then have a: "2 ^ Suc l \<le> n" by simp
    from hi l have "n div 2 + 1 \<le> 2 ^ Suc l" by simp
    then have "2 * (n div 2) + 2 \<le> 2 * 2 ^ Suc l" by simp
    then have b: "n < 2 ^ Suc (Suc l)" by simp
    show ?thesis using a b bl by simp
  qed
qed

lemma floor_log2_bounds:
  assumes "0 < x"
  shows "2 powi floor_log2 x \<le> x \<and> x < 2 powi (floor_log2 x + 1)"
proof (cases "1 \<le> x")
  case True
  let ?n = "nat \<lfloor>x\<rfloor>"
  have n: "0 < ?n" using True by simp
  from bit_length_bounds [OF n]
  have lo: "2 ^ (bit_length ?n - 1) \<le> ?n" and hi: "?n < 2 ^ bit_length ?n" by simp_all
  have pos: "0 < bit_length ?n" using n by (simp add: bit_length_pos)
  have e: "floor_log2 x = int (bit_length ?n - 1)"
    using True pos by (simp add: floor_log2_def)
  have "real (2 ^ (bit_length ?n - 1)) \<le> real ?n"
    using lo by (simp only: of_nat_le_iff)
  also have "real ?n \<le> x" using True by simp
  finally have a: "2 powi floor_log2 x \<le> x" by (simp add: e)
  have "x < real ?n + 1" using True by simp
  also have "real ?n + 1 \<le> real (2 ^ bit_length ?n)"
    using hi by (metis Suc_leI of_nat_Suc of_nat_le_iff add.commute plus_1_eq_Suc)
  finally have "x < 2 ^ bit_length ?n" by simp
  moreover have "floor_log2 x + 1 = int (bit_length ?n)"
    using e pos by simp
  ultimately have b: "x < 2 powi (floor_log2 x + 1)" by simp
  show ?thesis using a b by simp
next
  case False
  let ?y = "1 / x"
  let ?m = "nat \<lceil>?y\<rceil> - 1"
  have y: "1 < ?y" using False assms by simp
  then have c2: "2 \<le> \<lceil>?y\<rceil>" by linarith
  then have m: "0 < ?m" by simp
  have im: "int ?m = \<lceil>?y\<rceil> - 1" using c2 by linarith
  have "real ?m = of_int (int ?m)" by simp
  also have "\<dots> = of_int (\<lceil>?y\<rceil> - 1)" by (simp only: im)
  finally have rm: "real ?m = of_int \<lceil>?y\<rceil> - 1" by simp
  have my: "real ?m < ?y"
    unfolding rm using ceiling_correct [of ?y] by linarith
  have ym: "?y \<le> real ?m + 1"
    unfolding rm using ceiling_correct [of ?y] by linarith
  from bit_length_bounds [OF m]
  have lo: "2 ^ (bit_length ?m - 1) \<le> ?m" and hi: "?m < 2 ^ bit_length ?m" by simp_all
  have pos: "0 < bit_length ?m" using m by (simp add: bit_length_pos)
  have e: "floor_log2 x = - int (bit_length ?m)"
    using False by (simp add: floor_log2_def)
  have "real ?m + 1 \<le> real (2 ^ bit_length ?m)"
    using hi by (metis Suc_leI of_nat_Suc of_nat_le_iff add.commute plus_1_eq_Suc)
  with ym have "?y \<le> 2 ^ bit_length ?m" by simp
  then have "1 \<le> x * 2 ^ bit_length ?m"
    using assms by (simp add: field_simps)
  then have a: "2 powi floor_log2 x \<le> x"
    by (simp add: e power_int_minus field_simps)
  have "real (2 ^ (bit_length ?m - 1)) \<le> real ?m"
    using lo by (simp only: of_nat_le_iff)
  moreover have "real (2 ^ (bit_length ?m - 1)) = 2 ^ (bit_length ?m - 1)"
    by simp
  ultimately have "(2::real) ^ (bit_length ?m - 1) < ?y"
    using my by linarith
  then have lt: "x * 2 ^ (bit_length ?m - 1) < 1"
    using assms by (simp add: field_simps)
  have "floor_log2 x + 1 = - int (bit_length ?m - 1)"
    using e pos by simp
  then have b: "x < 2 powi (floor_log2 x + 1)"
    using lt by (simp add: power_int_minus field_simps)
  show ?thesis using a b by simp
qed

lemma floor_log2_le:
  assumes "0 < x" and "x < 2 powi (k + 1)"
  shows "floor_log2 x \<le> k"
proof (rule ccontr)
  assume "\<not> floor_log2 x \<le> k"
  then have "k + 1 \<le> floor_log2 x" by simp
  then have "(2::real) powi (k + 1) \<le> 2 powi floor_log2 x"
    by (intro power_int_increasing) simp_all
  also have "\<dots> \<le> x" using floor_log2_bounds [OF assms(1)] by simp
  finally show False using assms(2) by simp
qed

lemma round_half_even_error: "\<bar>of_int (round_half_even t) - t\<bar> \<le> 1 / 2"
proof -
  define f where "f = \<lfloor>t\<rfloor>"
  define r where "r = t - of_int f"
  have r: "0 \<le> r" "r < 1" unfolding r_def f_def by linarith+
  have t: "t = of_int f + r" by (simp add: r_def)
  have "round_half_even t =
          (if r < 1 / 2 then f else if 1 / 2 < r then f + 1 else if even f then f else f + 1)"
    by (simp add: round_half_even_def Let_def f_def r_def)
  then show ?thesis
    using r unfolding t by (auto simp: abs_if)
qed

lemma round_double_error:
  assumes "x \<noteq> 0"
  shows "\<bar>round_double x - x\<bar> \<le> 2 powi (max (floor_log2 \<bar>x\<bar>) (- 1022) - 53)"
proof -
  let ?e = "max (floor_log2 \<bar>x\<bar>) (- 1022)"
  let ?ulp = "(2::real) powi (?e - 52)"
  have u: "0 < ?ulp" by simp
  have "round_double x - x = (of_int (round_half_even (x / ?ulp)) - x / ?ulp) * ?ulp"
    using assms u by (simp add: round_double_def Let_def field_simps)
  then have "\<bar>round_double x - x\<bar> = \<bar>of_int (round_half_even (x / ?ulp)) - x / ?ulp\<bar> * ?ulp"
    using u by (simp add: abs_mult)
  also have "\<dots> \<le> (1 / 2) * ?ulp"
    using round_half_even_error [of "x / ?ulp"] u by (intro mult_right_mono) simp_all
  also have "(1 / 2) * ?ulp = 2 powi (?e - 53)"
  proof -
    have "(2::real) powi (?e - 52) = 2 powi (?e - 53 + 1)" by simp
    also have "\<dots> = 2 powi (?e - 53) * 2" by (subst power_int_add) simp_all
    finally show ?thesis by simp
  qed
  finally show ?thesis .
qed


lemma round_double_error_below:
  assumes "x \<noteq> 0" and "\<bar>x\<bar> < 2 powi (k + 1)" and "- 1022 \<le> k"
  shows "\<bar>round_double x - x\<bar> \<le> 2 powi (k - 53)"
proof -
  have "floor_log2 \<bar>x\<bar> \<le> k"
    using assms(1,2) by (intro floor_log2_le) simp_all
  then have "max (floor_log2 \<bar>x\<bar>) (- 1022) - 53 \<le> k - 53"
    using assms(3) by simp
  then have "(2::real) powi (max (floor_log2 \<bar>x\<bar>) (- 1022) - 53) \<le> 2 powi (k - 53)"
    by (intro power_int_increasing) simp_all
  with round_double_error [OF assms(1)] show ?thesis by linarith
qed

lemma score_close:
  assumes "c \<le> n" and "0 < n"
  shows "\<bar>round_double (round_double (real c / real n) * 100) - 100 * real c / real n\<bar>
           \<le> 164 / 2 ^ 53"
proof (cases "c = 0")
  case True
  then show ?thesis by (simp add: round_double_def)
next
  case False
  let ?x = "real c / real n"
  let ?a = "round_double ?x"
  have x0: "0 < ?x" using False assms(2) by simp
  have x1: "?x \<le> 1" using assms by simp
  have "\<bar>?x\<bar> < 2 powi (0 + 1)" using x0 x1 by simp
  have xn: "?x \<noteq> 0" using False assms(2) by simp
  have k0: "- 1022 \<le> (0::int)" by simp
  from round_double_error_below [OF xn \<open>\<bar>?x\<bar> < 2 powi (0 + 1)\<close> k0]
  have a: "\<bar>?a - ?x\<bar> \<le> 2 powi (- 53)" by simp
  have p53: "(2::real) powi (- 53) = 1 / 2 ^ 53"
    by (simp add: power_int_minus field_simps)
  have p47: "(2::real) powi (- 47) = 1 / 2 ^ 47"
    by (simp add: power_int_minus field_simps)
  have first: "\<bar>?a * 100 - 100 * ?x\<bar> \<le> 100 / 2 ^ 53"
  proof -
    have "\<bar>?a * 100 - 100 * ?x\<bar> = 100 * \<bar>?a - ?x\<bar>" by (simp add: abs_if)
    then show ?thesis using a p53 by simp
  qed
  show ?thesis
  proof (cases "?a * 100 = 0")
    case True
    then have "round_double (?a * 100) = 0" by (simp add: round_double_def)
    with first True show ?thesis by simp
  next
    case nz: False
    have "\<bar>?a * 100\<bar> \<le> \<bar>?a * 100 - 100 * ?x\<bar> + \<bar>100 * ?x\<bar>" by linarith
    also have "\<dots> \<le> 100 / 2 ^ 53 + 100" using first x0 x1 by (simp add: abs_if)
    also have "\<dots> < 2 powi (6 + 1)" by simp
    finally have "\<bar>?a * 100\<bar> < 2 powi (6 + 1)" .
    have k6: "- 1022 \<le> (6::int)" by simp
    from round_double_error_below [OF nz \<open>\<bar>?a * 100\<bar> < 2 powi (6 + 1)\<close> k6]
    have "\<bar>round_double (?a * 100) - ?a * 100\<bar> \<le> 2 powi (- 47)" by simp
    then have second: "\<bar>round_double (?a * 100) - ?a * 100\<bar> \<le> 1 / 2 ^ 47"
      using p47 by simp
    have "\<bar>round_double (?a * 100) - 100 * ?x\<bar>
            \<le> \<bar>round_double (?a * 100) - ?a * 100\<bar> + \<bar>?a * 100 - 100 * ?x\<bar>"
      by linarith
    also have "\<dots> \<le> 1 / 2 ^ 47 + 100 / 2 ^ 53" using first second by linarith
    also have "\<dots> = 164 / 2 ^ 53" by simp
    finally show ?thesis by simp
  qed
qed

section \<open>Scoring\<close>

subsection \<open>The grading loop\<close>

text \<open>
  While the index stays inside the question list, the loop pairs the answers with the
  questions from position \<open>i\<close> on, one by one: the new results are those of
  \<open>zip as (drop i qs)\<close>.
\<close>

lemma grade_loop_in_range:
  "i + length as \<le> length qs \<Longrightarrow>
   grade_loop qs i as c dr =
     Inr (c + length (filter (\<lambda>p. answer (fst p) = correct (snd p)) (zip as (drop i qs))),
          dr @ map (\<lambda>p. detailed_result_of (fst p) (snd p) (answer (fst p) = correct (snd p)))
                 (zip as (drop i qs)))"
proof (induction as arbitrary: i c dr)
  case Nil
  then show ?case by simp
next
  case (Cons a rest)
  then have i: "i < length qs" and step: "Suc i + length rest \<le> length qs" by simp_all
  have d: "drop i qs = qs ! i # drop (Suc i) qs"
    using i by (simp add: Cons_nth_drop_Suc)
  show ?case
    using i by (simp add: Cons.IH [OF step] d Let_def)
qed

text \<open>With more answers left than questions, the loop reaches the end of the questions.\<close>

lemma grade_loop_out_of_range:
  "i \<le> length qs \<Longrightarrow> length qs < i + length as \<Longrightarrow> grade_loop qs i as c dr = Inl IndexError"
proof (induction as arbitrary: i c dr)
  case Nil
  then show ?case by simp
next
  case (Cons a rest)
  show ?case
  proof (cases "i < length qs")
    case True
    then have "Suc i \<le> length qs" "length qs < Suc i + length rest"
      using Cons.prems by simp_all
    then show ?thesis using True by (simp add: Cons.IH Let_def)
  next
    case False
    then show ?thesis by simp
  qed
qed

lemma submit_quiz_lists_unchanged:
  "submit_quiz st submission now1 now2 = Inr (resp, st') \<Longrightarrow> st' = st"
  by (auto simp: submit_quiz_def Let_def split: option.splits sum.splits if_splits)

lemma create_math_quiz:
  "create_quiz (initial_state []) math_quiz_data ''t0'' =
     Inr ((''Quiz created successfully'', 1), initial_state [math_quiz])"
  by (simp add: create_quiz_def initial_state_def math_quiz_data_def math_quiz_def Let_def)

text \<open>\<^verbatim>\<open>create_quiz\<close> stores no quiz without questions.\<close>

lemma check_questions_length:
  "check_questions i qs = Inr stored \<Longrightarrow> length stored = length qs"
  by (induction qs arbitrary: i stored)
     (auto split: option.splits if_splits sum.splits)

lemma create_quiz_questions_nonempty:
  assumes "create_quiz st d now = Inr (r, st')"
  shows "q_questions (last (quizzes st')) \<noteq> []"
  using assms
  by (auto simp: create_quiz_def Let_def dest!: check_questions_length
        split: option.splits if_splits sum.splits)

subsection \<open>The attempt history\<close>

text \<open>
  Claim C1 says that a successful submission appends one attempt record to the shared
  attempt history, which then contains it. In \<^verbatim>\<open>submit_quiz\<close> the record is appended to a
  list local to the call. For the quiz and the submission of \<^verbatim>\<open>test_submit_quiz\<close>: the quiz
  is created, the submission is graded with score 50, and the module-level history is as
  empty after the call as before it, also for its reader \<^verbatim>\<open>get_quiz_history\<close>.
\<close>

theorem submit_quiz_history_not_recorded:
  "create_quiz (initial_state []) math_quiz_data ''t0'' =
     Inr ((''Quiz created successfully'', 1), initial_state [math_quiz]) \<and>
   submit_quiz (initial_state [math_quiz]) math_submission ''t1'' ''t2'' =
     Inr (\<lparr>r_score = 50, r_correct = 1, r_total = 2,
           r_detailed_results =
             [\<lparr>dr_question = ''1+1?'', your_answer = \<lparr>question_id = 0, answer = ''B''\<rparr>,
               correct_answer = ''B'', is_correct = True,
               dr_options = [''1'', ''2'', ''3'', ''4'']\<rparr>,
              \<lparr>dr_question = ''2+2?'', your_answer = \<lparr>question_id = 0, answer = ''A''\<rparr>,
               correct_answer = ''B'', is_correct = False,
               dr_options = [''3'', ''4'', ''5'', ''6'']\<rparr>]\<rparr>,
          initial_state [math_quiz]) \<and>
   quiz_history (initial_state [math_quiz]) = [] \<and>
   get_quiz_history (initial_state [math_quiz]) ''testuser'' = []"
  by (simp add: create_quiz_def submit_quiz_def get_quiz_history_def initial_state_def
        math_quiz_data_def math_quiz_def math_submission_def detailed_result_of_def Let_def
        round_double_def floor_log2_def round_half_even_def)

subsection \<open>A quiz with no question\<close>

text \<open>
  Claim C4 says that grading a quiz with an empty question sequence fails with
  \<^verbatim>\<open>EmptyQuizError\<close>, a guard against the division by zero, and not with an unclassified
  error. The source has no such guard. With no answer the division itself raises
  \<^verbatim>\<open>ZeroDivisionError\<close>; with an answer the loop raises \<^verbatim>\<open>IndexError\<close> before the division is
  reached; neither is one of the HTTP errors the endpoints raise.
\<close>

theorem submit_quiz_empty_quiz_unclassified:
  "submit_quiz (initial_state [empty_quiz]) (math_submission\<lparr>answers := []\<rparr>) ''t1'' ''t2'' =
     Inl ZeroDivisionError \<and>
   \<not> is_HTTPException ZeroDivisionError \<and>
   submit_quiz (initial_state [empty_quiz]) math_submission ''t1'' ''t2'' = Inl IndexError \<and>
   \<not> is_HTTPException IndexError"
  by (simp add: submit_quiz_def initial_state_def empty_quiz_def math_quiz_def
        math_submission_def)

text \<open>
  Claim C4 as amended: for every quiz of the catalog whose question sequence is empty,
  grading a submission never returns a result; it stops with \<^verbatim>\<open>ZeroDivisionError\<close> when the
  submission has no answer and with \<^verbatim>\<open>IndexError\<close> when it has one.
\<close>

theorem submit_quiz_empty_quiz:
  assumes "find (\<lambda>q. q_id q = sub_quiz_id submission) (quizzes st) = Some qz"
    and "q_questions qz = []"
  shows "submit_quiz st submission now1 now2 =
           Inl (if answers submission = [] then ZeroDivisionError else IndexError)"
proof (cases "answers submission")
  case Nil
  then show ?thesis using assms by (simp add: submit_quiz_def)
next
  case (Cons a rest)
  then have "length (q_questions qz) < length (answers submission)"
    using assms(2) by simp
  then have "grade_loop (q_questions qz) 0 (answers submission) 0 [] = Inl IndexError"
    by (simp add: grade_loop_out_of_range)
  then show ?thesis using assms(1) Cons by (simp add: submit_quiz_def)
qed

theorem submit_quiz_empty_quiz_witness:
  "find (\<lambda>q. q_id q = sub_quiz_id math_submission) (quizzes (initial_state [empty_quiz])) =
     Some empty_quiz \<and>
   q_questions empty_quiz = [] \<and>
   submit_quiz (initial_state [empty_quiz]) math_submission ''t1'' ''t2'' = Inl IndexError"
proof -
  have f: "find (\<lambda>q. q_id q = sub_quiz_id math_submission) (quizzes (initial_state [empty_quiz])) =
             Some empty_quiz"
    by (simp add: initial_state_def empty_quiz_def math_quiz_def math_submission_def)
  have e: "q_questions empty_quiz = []"
    by (simp add: empty_quiz_def)
  have a: "answers math_submission \<noteq> []"
    by (simp add: math_submission_def)
  show ?thesis
    using f e a submit_quiz_empty_quiz [OF f e, of "''t1''" "''t2''"] by simp
qed

subsection \<open>Positional grading\<close>

text \<open>
  The result of a call on a quiz with at least one question and no more answers than
  questions, written out.
\<close>

lemma submit_quiz_graded:
  assumes "find (\<lambda>q. q_id q = sub_quiz_id submission) (quizzes st) = Some qz"
    and "q_questions qz \<noteq> []"
    and "length (answers submission) \<le> length (q_questions qz)"
  shows "submit_quiz st submission now1 now2 =
           Inr (\<lparr>r_score =
                   round_double
                     (round_double
                        (real (length (filter (\<lambda>p. answer (fst p) = correct (snd p))
                                         (zip (answers submission) (q_questions qz)))) /
                         real (length (q_questions qz))) * 100),
                 r_correct =
                   length (filter (\<lambda>p. answer (fst p) = correct (snd p))
                             (zip (answers submission) (q_questions qz))),
                 r_total = length (q_questions qz),
                 r_detailed_results =
                   map (\<lambda>p. detailed_result_of (fst p) (snd p)
                               (answer (fst p) = correct (snd p)))
                     (zip (answers submission) (q_questions qz))\<rparr>, st)"
  using assms by (simp add: submit_quiz_def grade_loop_in_range Let_def)

text \<open>
  Claim C5 says that for a quiz with \<open>n \<ge> 1\<close> questions and at most \<open>n\<close> answers the
  returned score is \<open>100 * correctCount / n\<close>. The score is the float
  \<^verbatim>\<open>(correct_answers / total_questions) * 100\<close>, rounded twice. With eleven correct answers
  out of twenty, \<open>11 / 20\<close> is rounded up to the double \<open>4953959590107546 / 2 ^ 53\<close>, and a
  hundred times that is rounded to \<open>7740561859543041 / 2 ^ 47\<close>, the double after 55, which
  Python prints as \<^verbatim>\<open>55.00000000000001\<close>; \<open>100 * 11 / 20\<close> is 55.
\<close>

theorem submit_quiz_score_rounded:
  "submit_quiz (initial_state [twenty_question_quiz]) eleven_right_submission ''t1'' ''t2'' =
     Inr (\<lparr>r_score = 7740561859543041 / 140737488355328, r_correct = 11, r_total = 20,
           r_detailed_results =
             replicate 11
               \<lparr>dr_question = ''1+1?'', your_answer = \<lparr>question_id = 0, answer = ''B''\<rparr>,
                correct_answer = ''B'', is_correct = True,
                dr_options = [''1'', ''2'', ''3'', ''4'']\<rparr> @
             replicate 9
               \<lparr>dr_question = ''1+1?'', your_answer = \<lparr>question_id = 0, answer = ''A''\<rparr>,
                correct_answer = ''B'', is_correct = False,
                dr_options = [''1'', ''2'', ''3'', ''4'']\<rparr>\<rparr>,
          initial_state [twenty_question_quiz]) \<and>
   (7740561859543041 / 140737488355328 :: real) \<noteq> 100 * 11 / 20"
proof -
  let ?q = "\<lparr>question = ''1+1?'', options = [''1'', ''2'', ''3'', ''4''], correct = ''B''\<rparr>"
  let ?b = "\<lparr>question_id = 0, answer = ''B''\<rparr>"
  let ?a = "\<lparr>question_id = 0, answer = ''A''\<rparr>"
  have f: "find (\<lambda>q. q_id q = sub_quiz_id eleven_right_submission)
             (quizzes (initial_state [twenty_question_quiz])) = Some twenty_question_quiz"
    by (simp add: initial_state_def twenty_question_quiz_def math_quiz_def
          eleven_right_submission_def math_submission_def)
  have ne: "q_questions twenty_question_quiz \<noteq> []"
    by (simp add: twenty_question_quiz_def)
  have le: "length (answers eleven_right_submission) \<le> length (q_questions twenty_question_quiz)"
    by (simp add: twenty_question_quiz_def eleven_right_submission_def)
  have split: "replicate 20 ?q = replicate 11 ?q @ replicate 9 ?q"
    by (simp flip: replicate_add)
  have z: "zip (answers eleven_right_submission) (q_questions twenty_question_quiz) =
             replicate 11 (?b, ?q) @ replicate 9 (?a, ?q)"
    by (simp add: twenty_question_quiz_def eleven_right_submission_def split)
  have c: "length (filter (\<lambda>p. answer (fst p) = correct (snd p))
                     (zip (answers eleven_right_submission)
                        (q_questions twenty_question_quiz))) = 11"
    unfolding z by simp
  have d: "map (\<lambda>p. detailed_result_of (fst p) (snd p) (answer (fst p) = correct (snd p)))
             (zip (answers eleven_right_submission) (q_questions twenty_question_quiz)) =
           replicate 11
             \<lparr>dr_question = ''1+1?'', your_answer = ?b, correct_answer = ''B'',
              is_correct = True, dr_options = [''1'', ''2'', ''3'', ''4'']\<rparr> @
           replicate 9
             \<lparr>dr_question = ''1+1?'', your_answer = ?a, correct_answer = ''B'',
              is_correct = False, dr_options = [''1'', ''2'', ''3'', ''4'']\<rparr>"
    unfolding z by (simp add: detailed_result_of_def)
  have n: "length (q_questions twenty_question_quiz) = 20"
    by (simp add: twenty_question_quiz_def)
  have r1: "round_double (11 / 20) = 4953959590107546 / 9007199254740992"
    by (simp add: round_double_def floor_log2_def round_half_even_def Let_def)
  have r2: "round_double (round_double (11 / 20) * 100) = 7740561859543041 / 140737488355328"
    by (simp add: r1) (simp add: round_double_def floor_log2_def round_half_even_def Let_def)
  have eq: "real 11 / real 20 = 11 / 20"
    by simp
  have sc: "round_double (round_double (real 11 / real 20) * 100) =
              7740561859543041 / 140737488355328"
    by (simp only: eq r2)
  have "submit_quiz (initial_state [twenty_question_quiz]) eleven_right_submission ''t1'' ''t2'' =
          Inr (\<lparr>r_score = round_double (round_double (real 11 / real 20) * 100),
                r_correct = 11, r_total = 20,
                r_detailed_results =
                  replicate 11
                    \<lparr>dr_question = ''1+1?'', your_answer = ?b, correct_answer = ''B'',
                     is_correct = True, dr_options = [''1'', ''2'', ''3'', ''4'']\<rparr> @
                  replicate 9
                    \<lparr>dr_question = ''1+1?'', your_answer = ?a, correct_answer = ''B'',
                     is_correct = False, dr_options = [''1'', ''2'', ''3'', ''4'']\<rparr>\<rparr>,
               initial_state [twenty_question_quiz])"
    by (simp only: submit_quiz_graded [OF f ne le] c d n)
  then show ?thesis
    by (simp only: sc) simp
qed

text \<open>
  Claim C5 as amended: for a quiz of the catalog with \<open>n \<ge> 1\<close> questions and a submission
  with at most \<open>n\<close> answers, the call succeeds and leaves the lists as they are; the result at
  position \<open>i\<close> is built from answer \<open>i\<close> and question \<open>i\<close> and is marked correct exactly
  when the submitted label equals the question's correct label (equality of strings, so case
  matters); \<^verbatim>\<open>correct\<close> is the number of such positions and \<^verbatim>\<open>total\<close> is \<open>n\<close>. The score is
  the float \<^verbatim>\<open>(correct / n) * 100\<close>, quotient and product each rounded to the nearest double;
  it is within \<open>164 / 2 ^ 53\<close> of \<open>100 * correct / n\<close>. The \<^verbatim>\<open>question_id\<close> an answer carries
  is not looked at.
\<close>

theorem submit_quiz_positional:
  assumes "find (\<lambda>q. q_id q = sub_quiz_id submission) (quizzes st) = Some qz"
    and "1 \<le> length (q_questions qz)"
    and "length (answers submission) \<le> length (q_questions qz)"
  shows "\<exists>resp. submit_quiz st submission now1 now2 = Inr (resp, st) \<and>
           length (r_detailed_results resp) = length (answers submission) \<and>
           (\<forall>i < length (answers submission).
              r_detailed_results resp ! i =
                detailed_result_of (answers submission ! i) (q_questions qz ! i)
                  (answer (answers submission ! i) = correct (q_questions qz ! i)) \<and>
              is_correct (r_detailed_results resp ! i) =
                (answer (answers submission ! i) = correct (q_questions qz ! i))) \<and>
           r_correct resp =
             card {i. i < length (answers submission) \<and>
                      answer (answers submission ! i) = correct (q_questions qz ! i)} \<and>
           r_total resp = length (q_questions qz) \<and>
           r_score resp =
             round_double
               (round_double (real (r_correct resp) / real (length (q_questions qz))) * 100) \<and>
           \<bar>r_score resp - 100 * real (r_correct resp) / real (length (q_questions qz))\<bar>
             \<le> 164 / 2 ^ 53"
proof -
  let ?as = "answers submission" and ?qs = "q_questions qz"
  let ?c = "length (filter (\<lambda>p. answer (fst p) = correct (snd p)) (zip ?as ?qs))"
  from assms(2) have ne: "?qs \<noteq> []" by auto
  have cnt: "?c = card {i. i < length ?as \<and> answer (?as ! i) = correct (?qs ! i)}"
  proof -
    have "?c = card {i. i < length (zip ?as ?qs) \<and>
                        (\<lambda>p. answer (fst p) = correct (snd p)) (zip ?as ?qs ! i)}"
      by (rule length_filter_conv_card)
    also have "{i. i < length (zip ?as ?qs) \<and>
                   (\<lambda>p. answer (fst p) = correct (snd p)) (zip ?as ?qs ! i)} =
               {i. i < length ?as \<and> answer (?as ! i) = correct (?qs ! i)}"
      using assms(3) by auto
    finally show ?thesis .
  qed
  have "?c \<le> length (zip ?as ?qs)" by (rule length_filter_le)
  then have cn: "?c \<le> length ?qs" using assms(3) by simp
  have n: "0 < length ?qs" using ne by simp
  have close: "\<bar>round_double (round_double (real ?c / real (length ?qs)) * 100) -
                 100 * real ?c / real (length ?qs)\<bar> \<le> 164 / 2 ^ 53"
    by (rule score_close [OF cn n])
  show ?thesis
    using submit_quiz_graded [OF assms(1) ne assms(3), of now1 now2] assms(3) cnt close
    by (simp add: detailed_result_of_def)
qed

text \<open>
  The scenario of the claim, which is \<^verbatim>\<open>test_submit_quiz\<close>: correct labels B, B and the
  submission B, A give score 50, one correct answer out of two, the first result correct
  and the second not. Here no rounding takes place: \<open>1 / 2\<close> and 50 are doubles.
\<close>

theorem submit_quiz_positional_witness:
  "find (\<lambda>q. q_id q = sub_quiz_id math_submission) (quizzes (initial_state [math_quiz])) =
     Some math_quiz \<and>
   1 \<le> length (q_questions math_quiz) \<and>
   length (answers math_submission) \<le> length (q_questions math_quiz) \<and>
   (\<exists>resp. submit_quiz (initial_state [math_quiz]) math_submission ''t1'' ''t2'' =
              Inr (resp, initial_state [math_quiz]) \<and>
           r_score resp = 50 \<and> r_correct resp = 1 \<and> r_total resp = 2 \<and>
           length (r_detailed_results resp) = 2 \<and>
           is_correct (r_detailed_results resp ! 0) \<and>
           \<not> is_correct (r_detailed_results resp ! 1))"
proof -
  have f: "find (\<lambda>q. q_id q = sub_quiz_id math_submission) (quizzes (initial_state [math_quiz])) =
             Some math_quiz"
    by (simp add: initial_state_def math_quiz_def math_submission_def)
  have n: "1 \<le> length (q_questions math_quiz)"
    by (simp add: math_quiz_def)
  have l: "length (answers math_submission) \<le> length (q_questions math_quiz)"
    by (simp add: math_quiz_def math_submission_def)
  have c: "card {i. i < length (answers math_submission) \<and>
                    answer (answers math_submission ! i) = correct (q_questions math_quiz ! i)} = 1"
  proof -
    have "{i. i < length (answers math_submission) \<and>
              answer (answers math_submission ! i) = correct (q_questions math_quiz ! i)} = {0}"
      by (auto simp: math_quiz_def math_submission_def less_Suc_eq numeral_2_eq_2)
    then show ?thesis by simp
  qed
  from submit_quiz_positional [OF f n l, of "''t1''" "''t2''"]
  obtain resp where r:
    "submit_quiz (initial_state [math_quiz]) math_submission ''t1'' ''t2'' =
       Inr (resp, initial_state [math_quiz])"
    "length (r_detailed_results resp) = length (answers math_submission)"
    "\<forall>i < length (answers math_submission).
        r_detailed_results resp ! i =
          detailed_result_of (answers math_submission ! i) (q_questions math_quiz ! i)
            (answer (answers math_submission ! i) = correct (q_questions math_quiz ! i)) \<and>
        is_correct (r_detailed_results resp ! i) =
          (answer (answers math_submission ! i) = correct (q_questions math_quiz ! i))"
    "r_correct resp =
       card {i. i < length (answers math_submission) \<and>
                answer (answers math_submission ! i) = correct (q_questions math_quiz ! i)}"
    "r_total resp = length (q_questions math_quiz)"
    "r_score resp =
       round_double
         (round_double (real (r_correct resp) / real (length (q_questions math_quiz))) * 100)"
    by blast
  have c1: "r_correct resp = 1" using r(4) c by simp
  have t2: "r_total resp = 2" using r(5) by (simp add: math_quiz_def)
  have s50: "r_score resp = 50"
    using r(6) c1
    by (simp add: math_quiz_def round_double_def floor_log2_def round_half_even_def Let_def)
  have l2: "length (r_detailed_results resp) = 2" using r(2) by (simp add: math_submission_def)
  have i0: "is_correct (r_detailed_results resp ! 0)"
    using r(3) [rule_format, of 0]
    by (simp add: math_quiz_def math_submission_def detailed_result_of_def)
  have i1: "\<not> is_correct (r_detailed_results resp ! 1)"
    using r(3) [rule_format, of 1]
    by (simp add: math_quiz_def math_submission_def detailed_result_of_def)
  show ?thesis using f n l r(1) c1 t2 s50 l2 i0 i1 by blast
qed

subsection \<open>More answers than questions\<close>

text \<open>
  Claim C10: for a quiz of the catalog with \<open>n\<close> questions and a submission with more than
  \<open>n\<close> answers, the loop reads the question list at position \<open>n\<close>, and the call ends with
  the \<^verbatim>\<open>IndexError\<close> of that read: neither a result nor one of the HTTP errors.
\<close>

theorem submit_quiz_too_many_answers:
  assumes "find (\<lambda>q. q_id q = sub_quiz_id submission) (quizzes st) = Some qz"
    and "length (q_questions qz) < length (answers submission)"
  shows "submit_quiz st submission now1 now2 = Inl IndexError \<and> \<not> is_HTTPException IndexError"
  using assms by (simp add: submit_quiz_def grade_loop_out_of_range)

theorem submit_quiz_too_many_answers_witness:
  "find (\<lambda>q. q_id q = sub_quiz_id
                 (math_submission\<lparr>answers := answers math_submission @
                                     [\<lparr>question_id = 2, answer = ''C''\<rparr>]\<rparr>))
        (quizzes (initial_state [math_quiz])) = Some math_quiz \<and>
   length (q_questions math_quiz) <
     length (answers (math_submission\<lparr>answers := answers math_submission @
                                         [\<lparr>question_id = 2, answer = ''C''\<rparr>]\<rparr>)) \<and>
   submit_quiz (initial_state [math_quiz])
     (math_submission\<lparr>answers := answers math_submission @
                         [\<lparr>question_id = 2, answer = ''C''\<rparr>]\<rparr>) ''t1'' ''t2'' = Inl IndexError"
proof -
  let ?sub = "math_submission\<lparr>answers := answers math_submission @
                                 [\<lparr>question_id = 2, answer = ''C''\<rparr>]\<rparr>"
  have f: "find (\<lambda>q. q_id q = sub_quiz_id ?sub) (quizzes (initial_state [math_quiz])) =
             Some math_quiz"
    by (simp add: initial_state_def math_quiz_def math_submission_def)
  have l: "length (q_questions math_quiz) < length (answers ?sub)"
    by (simp add: math_quiz_def math_submission_def)
  show ?thesis
    using f l submit_quiz_too_many_answers [OF f l, of "''t1''" "''t2''"] by simp
qed

section \<open>Collaboration\<close>

subsection \<open>The in-place update of the first match\<close>


lemma find_update_first:
  "find P xs = Some x \<Longrightarrow> P (f x) \<Longrightarrow> find P (update_first P f xs) = Some (f x)"
  by (induction xs) (auto split: if_splits)





subsection \<open>What each call does to the lists\<close>










lemma invite_bob_result:
  "invite_collaborator (initial_state [shared_quiz])
     \<lparr>req_quiz_id = 1, req_inviter = ''alice'', req_invitee = ''bob'', req_role = None\<rparr> ''t1'' =
   Inr ((''Invitation sent successfully'', 1), invited_state)"
  by (simp add: invite_collaborator_def initial_state_def shared_quiz_def alice_quiz_def
        math_quiz_def invited_state_def bob_invitation_def Let_def)


subsection \<open>Responding with an action that is not \<^verbatim>\<open>"accept"\<close>\<close>

text \<open>
  Claim C9: for an invitation that exists, whose invitee is the caller and whose status is
  pending, a response whose action is anything but the string \<^verbatim>\<open>"accept"\<close> (another string,
  or no action at all) returns the decline outcome and sets the status of that invitation to
  declined; the action is compared with \<^verbatim>\<open>"accept"\<close> only.
\<close>

theorem respond_other_action_declines:
  assumes "find (\<lambda>i. i_id i = resp_invitation_id response) (collaboration_invitations st) = Some invt"
    and "i_invitee invt = resp_username response"
    and "i_status invt = ''pending''"
    and "resp_action response \<noteq> Some ''accept''"
  shows "respond_to_invitation st response now1 now2 =
           Inr ((''Invitation declined'', None),
                st\<lparr>collaboration_invitations :=
                     update_first (\<lambda>i. i_id i = resp_invitation_id response)
                       (\<lambda>i. i\<lparr>i_status := ''declined'', i_responded_at := Some now1\<rparr>)
                       (collaboration_invitations st)\<rparr>) \<and>
         find (\<lambda>i. i_id i = resp_invitation_id response)
           (update_first (\<lambda>i. i_id i = resp_invitation_id response)
              (\<lambda>i. i\<lparr>i_status := ''declined'', i_responded_at := Some now1\<rparr>)
              (collaboration_invitations st)) =
           Some (invt\<lparr>i_status := ''declined'', i_responded_at := Some now1\<rparr>)"
proof -
  have id: "i_id invt = resp_invitation_id response"
    using assms(1) by (auto dest: find_Some_iff [THEN iffD1])
  have "find (\<lambda>i. i_id i = resp_invitation_id response)
           (update_first (\<lambda>i. i_id i = resp_invitation_id response)
              (\<lambda>i. i\<lparr>i_status := ''declined'', i_responded_at := Some now1\<rparr>)
              (collaboration_invitations st)) =
           Some (invt\<lparr>i_status := ''declined'', i_responded_at := Some now1\<rparr>)"
    using assms(1) id by (simp add: find_update_first)
  then show ?thesis
    using assms by (simp add: respond_to_invitation_def Let_def)
qed

theorem respond_other_action_declines_witness:
  "find (\<lambda>i. i_id i = resp_invitation_id
                 \<lparr>resp_invitation_id = 1, resp_action = Some ''maybe'', resp_username = ''bob''\<rparr>)
        (collaboration_invitations invited_state) = Some bob_invitation \<and>
   i_invitee bob_invitation =
     resp_username \<lparr>resp_invitation_id = 1, resp_action = Some ''maybe'', resp_username = ''bob''\<rparr> \<and>
   i_status bob_invitation = ''pending'' \<and>
   resp_action \<lparr>resp_invitation_id = 1, resp_action = Some ''maybe'', resp_username = ''bob''\<rparr>
     \<noteq> Some ''accept'' \<and>
   respond_to_invitation invited_state
     \<lparr>resp_invitation_id = 1, resp_action = Some ''maybe'', resp_username = ''bob''\<rparr> ''t2'' ''t3'' =
     Inr ((''Invitation declined'', None),
          invited_state\<lparr>collaboration_invitations :=
            [bob_invitation\<lparr>i_status := ''declined'', i_responded_at := Some ''t2''\<rparr>]\<rparr>)"
proof -
  let ?r = "\<lparr>resp_invitation_id = 1, resp_action = Some ''maybe'', resp_username = ''bob''\<rparr>"
  have f: "find (\<lambda>i. i_id i = resp_invitation_id ?r) (collaboration_invitations invited_state) =
             Some bob_invitation"
    by (simp add: invited_state_def bob_invitation_def)
  have u: "i_invitee bob_invitation = resp_username ?r"
    by (simp add: bob_invitation_def)
  have p: "i_status bob_invitation = ''pending''"
    by (simp add: bob_invitation_def)
  have a: "resp_action ?r \<noteq> Some ''accept''"
    by simp
  have e: "update_first (\<lambda>i. i_id i = resp_invitation_id ?r)
             (\<lambda>i. i\<lparr>i_status := ''declined'', i_responded_at := Some ''t2''\<rparr>)
             (collaboration_invitations invited_state) =
           [bob_invitation\<lparr>i_status := ''declined'', i_responded_at := Some ''t2''\<rparr>]"
    by (simp add: invited_state_def bob_invitation_def)
  show ?thesis
    using f u p a e respond_other_action_declines [OF f u p a, of "''t2''" "''t3''"] by simp
qed

subsection \<open>The life of an invitation\<close>



subsection \<open>At most one row for a quiz and a user\<close>















subsection \<open>Permission to invite and to remove\<close>

text \<open>
  A quiz stored by \<^verbatim>\<open>create_quiz\<close> has no key \<^verbatim>\<open>"creator"\<close>, and on a quiz without that key
  both calls stop at \<^verbatim>\<open>quiz["creator"]\<close>. On a quiz that has the key, a caller who is neither
  its creator nor a collaborator with role admin or owner is refused with the error 403.
\<close>

lemma create_quiz_no_creator:
  assumes "create_quiz st d now = Inr (r, st')"
  shows "quizzes st' = quizzes st @ [last (quizzes st')] \<and> q_creator (last (quizzes st')) = None"
  using assms
  by (auto simp: create_quiz_def Let_def split: option.splits if_splits sum.splits)

lemma invite_without_creator_key:
  assumes "find (\<lambda>q. q_id q = req_quiz_id req) (quizzes st) = Some qz"
    and "q_creator qz = None"
  shows "invite_collaborator st req now = Inl (KeyError ''creator'')"
  using assms by (simp add: invite_collaborator_def Let_def)

lemma remove_without_creator_key:
  assumes "find (\<lambda>q. q_id q = quiz_id) (quizzes st) = Some qz"
    and "q_creator qz = None"
  shows "remove_collaborator st quiz_id target remover = Inl (KeyError ''creator'')"
  using assms by (simp add: remove_collaborator_def)

lemma invite_permission_denied:
  assumes "find (\<lambda>q. q_id q = req_quiz_id req) (quizzes st) = Some qz"
    and "q_creator qz = Some creator"
    and "creator \<noteq> req_inviter req"
    and "\<forall>c \<in> set (quiz_collaborators st).
           \<not> (c_quiz_id c = req_quiz_id req \<and> c_username c = req_inviter req \<and>
              (c_role c = ''admin'' \<or> c_role c = ''owner''))"
  shows "invite_collaborator st req now = Inl (HTTPException 403 ''Insufficient permissions'')"
proof -
  have "find (\<lambda>c. c_quiz_id c = req_quiz_id req \<and> c_username c = req_inviter req \<and>
                   c_role c \<in> set [''admin'', ''owner'']) (quiz_collaborators st) = None"
    using assms(4) by (auto simp: find_None_iff)
  then show ?thesis
    using assms(1-3) by (simp add: invite_collaborator_def Let_def)
qed

lemma remove_permission_denied:
  assumes "find (\<lambda>q. q_id q = quiz_id) (quizzes st) = Some qz"
    and "q_creator qz = Some creator"
    and "creator \<noteq> remover"
    and "\<forall>c \<in> set (quiz_collaborators st).
           \<not> (c_quiz_id c = quiz_id \<and> c_username c = remover \<and>
              (c_role c = ''admin'' \<or> c_role c = ''owner''))"
  shows "remove_collaborator st quiz_id target remover =
           Inl (HTTPException 403 ''Insufficient permissions'')"
proof -
  have "find (\<lambda>c. c_quiz_id c = quiz_id \<and> c_username c = remover \<and> c_role c = ''admin'')
          (quiz_collaborators st) = None"
    using assms(4) by (auto simp: find_None_iff)
  then show ?thesis
    using assms(1-3) by (simp add: remove_collaborator_def)
qed


text \<open>
  Claim C2 says that for every quiz of the catalog, invite and remove by a caller who is
  neither the creator nor an admin or owner collaborator fail with the error 403. For the
  quiz that \<^verbatim>\<open>create_quiz\<close> stores for a request with \<^verbatim>\<open>"created_by": "alice"\<close>, and the
  caller mallory, both calls end with \<^verbatim>\<open>KeyError\<close> instead: the permission test reads the
  key \<^verbatim>\<open>"creator"\<close>, and the quiz was stored under \<^verbatim>\<open>"created_by"\<close>.
\<close>

theorem collaboration_KeyError_on_created_quiz:
  "create_quiz (initial_state []) alice_quiz_data ''t0'' =
     Inr ((''Quiz created successfully'', 1), initial_state [alice_quiz]) \<and>
   invite_collaborator (initial_state [alice_quiz])
     \<lparr>req_quiz_id = 1, req_inviter = ''mallory'', req_invitee = ''bob'', req_role = None\<rparr>
     ''t1'' = Inl (KeyError ''creator'') \<and>
   remove_collaborator (initial_state [alice_quiz]) 1 ''bob'' ''mallory'' =
     Inl (KeyError ''creator'')"
  by (simp add: create_quiz_def invite_collaborator_def remove_collaborator_def
        initial_state_def alice_quiz_data_def math_quiz_data_def alice_quiz_def math_quiz_def
        Let_def)


subsection \<open>Removing the owner\<close>

text \<open>
  Claim C3 says that removing the quiz's creator fails with the error 400 "Cannot remove
  quiz owner" whoever asks. The permission test comes first: a requester who is neither the
  creator nor an admin collaborator gets the error 403.
\<close>

theorem remove_owner_by_stranger_denied:
  "q_creator shared_quiz = Some ''alice'' \<and>
   remove_collaborator (initial_state [shared_quiz]) 1 ''alice'' ''mallory'' =
     Inl (HTTPException 403 ''Insufficient permissions'')"
  by (simp add: remove_collaborator_def initial_state_def shared_quiz_def alice_quiz_def
        math_quiz_def)


text \<open>
  Claim C3 as amended: for every quiz of the catalog that has a creator, removing the
  creator fails for every requester, with the error 400 "Cannot remove quiz owner" when the
  requester is the creator or a collaborator of that quiz with role admin, and with the
  error 403 otherwise; being an error, it removes no collaborator row.
\<close>

theorem remove_owner_rejected:
  assumes "find (\<lambda>q. q_id q = quiz_id) (quizzes st) = Some qz"
    and "q_creator qz = Some creator"
  shows "remove_collaborator st quiz_id creator requester =
           (if creator \<noteq> requester \<and>
               find (\<lambda>c. c_quiz_id c = quiz_id \<and> c_username c = requester \<and>
                          c_role c = ''admin'') (quiz_collaborators st) = None
            then Inl (HTTPException 403 ''Insufficient permissions'')
            else Inl (HTTPException 400 ''Cannot remove quiz owner''))"
  using assms by (simp add: remove_collaborator_def)


theorem remove_owner_rejected_witness:
  "find (\<lambda>q. q_id q = 1) (quizzes (initial_state [shared_quiz])) = Some shared_quiz \<and>
   q_creator shared_quiz = Some ''alice'' \<and>
   remove_collaborator (initial_state [shared_quiz]) 1 ''alice'' ''alice'' =
     Inl (HTTPException 400 ''Cannot remove quiz owner'')"
proof -
  have f: "find (\<lambda>q. q_id q = 1) (quizzes (initial_state [shared_quiz])) = Some shared_quiz"
    by (simp add: initial_state_def shared_quiz_def alice_quiz_def math_quiz_def)
  have c: "q_creator shared_quiz = Some ''alice''"
    by (simp add: shared_quiz_def)
  show ?thesis
    using f c remove_owner_rejected [OF f c, of "''alice''"] by simp
qed


section \<open>The leaderboard\<close>

text \<open>
  The sample rows are returned exactly when no row of \<^verbatim>\<open>quiz_results\<close> belongs to a row of
  \<^verbatim>\<open>users\<close>; otherwise the aggregates of the query are.
\<close>

lemma leaderboard_query_empty_iff: "leaderboard_query db = [] \<longleftrightarrow> joined_rows db = []"
proof -
  have "leaderboard_query db = [] \<longleftrightarrow> length (leaderboard_query db) = 0" by simp
  also have "\<dots> \<longleftrightarrow> remdups (map fst (joined_rows db)) = []"
    by (simp add: leaderboard_query_def Let_def)
  also have "\<dots> \<longleftrightarrow> joined_rows db = []"
    by (metis map_is_Nil_conv remdups_eq_nil_iff)
  finally show ?thesis .
qed

lemma joined_rows_empty_iff:
  "joined_rows db = [] \<longleftrightarrow>
     (\<forall>r \<in> set (quiz_results db). \<forall>u \<in> set (users db). qr_user_id r \<noteq> u_id u)"
  by (auto simp: joined_rows_def filter_empty_conv)

lemma get_leaderboard_cases:
  "get_leaderboard db =
     (if \<forall>r \<in> set (quiz_results db). \<forall>u \<in> set (users db). qr_user_id r \<noteq> u_id u
      then sample_leaderboard else leaderboard_query db)"
  using leaderboard_query_empty_iff [of db] joined_rows_empty_iff [of db]
  by (simp add: get_leaderboard_def Let_def)

lemma get_leaderboard_no_results:
  "quiz_results db = [] \<Longrightarrow> get_leaderboard db = sample_leaderboard"
  by (simp add: get_leaderboard_cases)


lemma leaderboard_with_user:
  "get_leaderboard
     \<lparr>users = [\<lparr>u_id = 1, u_username = ''carol''\<rparr>],
      quiz_results = [\<lparr>qr_id = 1, qr_user_id = 1, qr_quiz_id = 1, qr_score = 80,
                       qr_total_questions = 10, qr_time_taken = 30\<rparr>]\<rparr> =
   [\<lparr>lb_username = ''carol'', lb_total_score = 80, lb_quizzes_taken = 1,
     lb_average_score = 80\<rparr>]"
  by (simp add: get_leaderboard_def leaderboard_query_def joined_rows_def Let_def)

text \<open>
  Claim C8 says that the sample rows are returned exactly when there is no recorded attempt.
  After one \<^verbatim>\<open>POST /quiz-history\<close> on empty tables there is a recorded result, with
  \<^verbatim>\<open>user_id\<close> 1 as for every result that endpoint writes, and no user; the inner join drops
  it, and the leaderboard is still the three sample rows.
\<close>

theorem leaderboard_sample_with_recorded_result:
  "submit_quiz_result \<lparr>users = [], quiz_results = []\<rparr> 80 10 30 =
     ((''Quiz result submitted successfully'', 1),
      \<lparr>users = [],
       quiz_results = [\<lparr>qr_id = 1, qr_user_id = 1, qr_quiz_id = 1, qr_score = 80,
                        qr_total_questions = 10, qr_time_taken = 30\<rparr>]\<rparr>) \<and>
   get_leaderboard
     \<lparr>users = [],
      quiz_results = [\<lparr>qr_id = 1, qr_user_id = 1, qr_quiz_id = 1, qr_score = 80,
                       qr_total_questions = 10, qr_time_taken = 30\<rparr>]\<rparr> = sample_leaderboard"
  by (simp add: submit_quiz_result_def get_leaderboard_def leaderboard_query_def
        joined_rows_def Let_def)


end
